theory Spec2Isabelle
  imports Complex_Main "HOL-Library.Sublist"
begin

section \<open>Intake analytics engine of the caffeine diary applications\<close>

text \<open>
  The development embeds the logic-bearing functions of \<^verbatim>\<open>Cafe1.py\<close> (and, where
  they differ, of its siblings \<^verbatim>\<open>CafeLamiaa.py\<close> and \<^verbatim>\<open>cafe.py\<close>): the metric
  calculator, the same-day rule engine, the multi-day trend analysis and the duplicate
  check of the daily entry form.

  Conventions of the embedding.
  \<^item> A cell of a pandas row is a \<open>real option\<close>: \<open>None\<close> is a missing or
    unparseable value (\<open>NaN\<close>), \<open>Some v\<close> a numeric value. Python floats are read
    as the real numbers they denote; infinities are outside the model. (The functions
    of Cafe1.py and CafeLamiaa.py treat a text as they treat \<open>NaN\<close>; cafe.py does
    not, and its cells have a type of their own.)
  \<^item> Python strings are byte lists in UTF-8; an accented letter is written with its
    two bytes.
  \<^item> The advisory texts are constant strings in the source. Each one is named by a
    constructor of a datatype; the numbers that the source formats into a text are
    the constructor's arguments.
  \<^item> A calendar date is its ordinal, an \<open>int\<close>.
\<close>

subsection \<open>Metric calculator\<close>

text \<open>Python's \<^verbatim>\<open>round(x, 2)\<close>: to the nearest hundredth, a tie to the even one.\<close>

definition py_round2 :: "real \<Rightarrow> real" where
  "py_round2 x =
     (let y = x * 100;
          f = \<lfloor>y\<rfloor>;
          d = y - of_int f;
          r = (if d < 1 / 2 then f
               else if 1 / 2 < d then f + 1
               else if even f then f else f + 1)
      in of_int r / 100)"

text \<open>
  \<^verbatim>\<open>compute_sleep_hours_from_hours\<close> (Cafe1.py 131-142): the two hours are made
  integers, a wake hour not after the bed hour is moved to the next day, and the
  difference is returned as a float rounded to two decimals. CafeLamiaa.py returns
  \<^verbatim>\<open>float(wake - bed)\<close> without the rounding.
\<close>

definition compute_sleep_hours_from_hours :: "int \<Rightarrow> int \<Rightarrow> real" where
  "compute_sleep_hours_from_hours bed_hour wake_hour =
     (let bed = bed_hour;
          wake = wake_hour;
          wake = (if wake \<le> bed then wake + 24 else wake);
          sleep_hours = wake - bed
      in py_round2 (of_int sleep_hours))"

definition compute_sleep_hours_from_hours_lamiaa :: "int \<Rightarrow> int \<Rightarrow> real" where
  "compute_sleep_hours_from_hours_lamiaa bed_hour wake_hour =
     (let bed = bed_hour;
          wake = wake_hour;
          wake = (if wake \<le> bed then wake + 24 else wake)
      in of_int (wake - bed))"

datatype level = Faible | Moyen | Eleve

text \<open>
  \<^verbatim>\<open>caffeine_level\<close> (Cafe1.py 159-165) starts with \<^verbatim>\<open>mg = float(mg or 0)\<close>: the
  argument \<open>None\<close> (Python's \<^verbatim>\<open>None\<close>) and the argument zero both become \<open>0\<close>.
  \<^verbatim>\<open>risk_level\<close> (cafe.py 159-165) compares its argument as it is.
\<close>

definition caffeine_level :: "real option \<Rightarrow> level" where
  "caffeine_level mg0 =
     (let mg = (case mg0 of None \<Rightarrow> 0 | Some v \<Rightarrow> (if v = 0 then 0 else v))
      in if mg < 100 then Faible
         else if mg \<le> 200 then Moyen
         else Eleve)"

definition risk_level :: "real \<Rightarrow> level" where
  "risk_level caffeine_mg_total =
     (if caffeine_mg_total < 100 then Faible
      else if caffeine_mg_total \<le> 200 then Moyen
      else Eleve)"

subsection \<open>Catalog and total intake\<close>

text \<open>The letter e with an acute accent, in UTF-8.\<close>

definition e_acute :: string where
  "e_acute = [CHR 0xC3, CHR 0xA9]"

text \<open>\<^verbatim>\<open>CAFFEINE_CATALOG\<close> (Cafe1.py 23-32), a dict in its insertion order.\<close>

definition CAFFEINE_CATALOG :: "(string \<times> int) list" where
  "CAFFEINE_CATALOG =
     [(''Espresso (30 ml)'', 75),
      (''Caf'' @ e_acute @ '' filtre (250 ml)'', 95),
      (''Caf'' @ e_acute @ '' instantan'' @ e_acute @ '' (250 ml)'', 60),
      (''Th'' @ e_acute @ '' noir (250 ml)'', 45),
      (''Th'' @ e_acute @ '' vert (250 ml)'', 30),
      (''Boisson '' @ e_acute @ ''nerg'' @ e_acute @ ''tique (250 ml)'', 80),
      (''Cola (330 ml)'', 35),
      (''Chocolat (50 g)'', 10)]"

text \<open>\<^verbatim>\<open>CAFFEINE_CATALOG.get(drink, default)\<close>.\<close>

definition catalog_get :: "string \<Rightarrow> int \<Rightarrow> int" where
  "catalog_get drink dflt =
     (case map_of CAFFEINE_CATALOG drink of None \<Rightarrow> dflt | Some mg_unit \<Rightarrow> mg_unit)"

text \<open>Python's decimal rendering of an integer inside an f-string.\<close>

definition digit_char :: "nat \<Rightarrow> char" where
  "digit_char d = ''0123456789'' ! d"

function str_nat :: "nat \<Rightarrow> string" where
  "str_nat n =
     (if n < 10 then [digit_char n] else str_nat (n div 10) @ [digit_char (n mod 10)])"
  by pat_completeness auto
termination
  by (relation "measure id") auto

declare str_nat.simps [simp del]

definition str_int :: "int \<Rightarrow> string" where
  "str_int i = (if i < 0 then CHR ''-'' # str_nat (nat (- i)) else str_nat (nat i))"

text \<open>\<^verbatim>\<open>sep.join(parts)\<close>.\<close>

fun join :: "string \<Rightarrow> string list \<Rightarrow> string" where
  "join sep [] = []"
| "join sep [p] = p"
| "join sep (p # q # ps) = p @ sep @ join sep (q # ps)"

text \<open>The f-string \<^verbatim>\<open>f"{drink} x{qty} ({mg} mg)"\<close>.\<close>

definition format_part :: "string \<Rightarrow> int \<Rightarrow> int \<Rightarrow> string" where
  "format_part drink qty mg = drink @ '' x'' @ str_int qty @ '' ('' @ str_int mg @ '' mg)''"

text \<open>
  \<^verbatim>\<open>compute_caffeine_total\<close> (Cafe1.py 145-156, cafe.py 140-156). The argument is a
  dict from drink label to count; the loop runs over \<^verbatim>\<open>drink_qty.items()\<close>, that is,
  over the argument's own insertion order, so the dict is an association list. The
  loop carries the running total and the list of parts.
\<close>

fun caffeine_loop :: "(string \<times> int) list \<Rightarrow> int \<Rightarrow> string list \<Rightarrow> int \<times> string list" where
  "caffeine_loop [] tot parts = (tot, parts)"
| "caffeine_loop ((drink, qty) # rest) tot parts =
     (if qty \<le> 0 then caffeine_loop rest tot parts
      else (let mg_unit = catalog_get drink 0;
                mg = qty * mg_unit
            in caffeine_loop rest (tot + mg) (parts @ [format_part drink qty mg])))"

definition compute_caffeine_total :: "(string \<times> int) list \<Rightarrow> int \<times> string" where
  "compute_caffeine_total drink_qty =
     (case caffeine_loop drink_qty 0 [] of
        (tot, parts) \<Rightarrow> (tot, if parts \<noteq> [] then join '' | '' parts else ''''))"

text \<open>The parts the loop has collected when it ends.\<close>

definition breakdown_parts :: "(string \<times> int) list \<Rightarrow> string list" where
  "breakdown_parts drink_qty = snd (caffeine_loop drink_qty 0 [])"

text \<open>
  The breakdown in the words of the specification, for comparison with the code: the
  catalog is traversed in its own order, and an item is listed when the mapping gives
  it a positive count (an item the mapping does not mention counts zero).
\<close>

definition quantity_of :: "(string \<times> int) list \<Rightarrow> string \<Rightarrow> int" where
  "quantity_of quantities item =
     (case map_of quantities item of None \<Rightarrow> 0 | Some c \<Rightarrow> c)"

definition breakdown_catalog_order :: "(string \<times> int) list \<Rightarrow> string" where
  "breakdown_catalog_order quantities =
     join '' | ''
       (map (\<lambda>(item, mg_unit).
               format_part item (quantity_of quantities item)
                 (quantity_of quantities item * mg_unit))
          (filter (\<lambda>(item, mg_unit). 0 < quantity_of quantities item) CAFFEINE_CATALOG))"

subsection \<open>Rows of the two tables\<close>

text \<open>
  A row of \<^verbatim>\<open>daily_logs.csv\<close> as \<^verbatim>\<open>load_logs\<close> returns it. The numeric columns
  are cells: whatever is missing or not a number is \<open>None\<close>.
\<close>

record log_row =
  date :: int
  participant_id :: string
  caffeine_mg_total :: "real option"
  last_caffeine_hour :: "real option"
  bed_hour :: "real option"
  wake_hour :: "real option"
  sleep_hours :: "real option"
  sleep_quality_1_5 :: "real option"
  stress_1_10 :: "real option"
  anxiety_1_10 :: "real option"
  focus_1_10 :: "real option"
  palpitations :: "real option"
  headache :: "real option"
  irritability :: "real option"
  digestive :: "real option"
  drinks_detail :: string
  created_at :: string

text \<open>
  Of a participant's profile row the engine reads one column, the declared
  sensitivity, through \<^verbatim>\<open>str(participant_row.get("sensitivity", ""))\<close>.
\<close>

record participant =
  p_participant_id :: string
  p_age :: int
  p_sensitivity :: string

text \<open>
  \<^verbatim>\<open>safe_int\<close> and \<^verbatim>\<open>safe_float\<close> (Cafe1.py 168-183): the default for a missing
  or malformed cell, otherwise \<^verbatim>\<open>int(float(x))\<close>, which truncates towards zero, and
  \<^verbatim>\<open>float(x)\<close>.
\<close>

definition py_int :: "real \<Rightarrow> int" where
  "py_int v = (if 0 \<le> v then \<lfloor>v\<rfloor> else \<lceil>v\<rceil>)"

definition safe_int :: "real option \<Rightarrow> int \<Rightarrow> int" where
  "safe_int x dflt = (case x of None \<Rightarrow> dflt | Some v \<Rightarrow> py_int v)"

definition safe_float :: "real option \<Rightarrow> real \<Rightarrow> real" where
  "safe_float x dflt = (case x of None \<Rightarrow> dflt | Some v \<Rightarrow> v)"

text \<open>
  \<^verbatim>\<open>str.strip()\<close> removes, at both ends, the code points for which \<^verbatim>\<open>str.isspace\<close>
  holds: U+0009 to U+000D, U+001C to U+0020, U+0085, U+00A0, U+1680, U+2000 to U+200A,
  U+2028, U+2029, U+202F, U+205F and U+3000. In UTF-8 the first group is one byte
  each, U+0085 and U+00A0 are two bytes (\<open>C2 85\<close>, \<open>C2 A0\<close>) and the others three
  (\<open>E1 9A 80\<close>, \<open>E2 80 80\<close> to \<open>E2 80 8A\<close>, \<open>E2 80 A8\<close>, \<open>E2 80 A9\<close>, \<open>E2 80 AF\<close>,
  \<open>E2 81 9F\<close>, \<open>E3 80 80\<close>). A lead byte is never a continuation byte, so at either
  end of a well-formed string these bytes are that code point and nothing else.
\<close>

definition py_isspace :: "char \<Rightarrow> bool" where
  "py_isspace c = (of_char c \<in> {9, 10, 11, 12, 13, 28, 29, 30, 31, 32 :: nat})"

definition py_isspace2 :: "char \<Rightarrow> char \<Rightarrow> bool" where
  "py_isspace2 a b = (a = CHR 0xC2 \<and> (b = CHR 0x85 \<or> b = CHR 0xA0))"

definition py_isspace3 :: "char \<Rightarrow> char \<Rightarrow> char \<Rightarrow> bool" where
  "py_isspace3 a b c =
     ((a = CHR 0xE1 \<and> b = CHR 0x9A \<and> c = CHR 0x80)
      \<or> (a = CHR 0xE2 \<and> b = CHR 0x80
          \<and> ((128 \<le> (of_char c :: nat) \<and> (of_char c :: nat) \<le> 138)
              \<or> c = CHR 0xA8 \<or> c = CHR 0xA9 \<or> c = CHR 0xAF))
      \<or> (a = CHR 0xE2 \<and> b = CHR 0x81 \<and> c = CHR 0x9F)
      \<or> (a = CHR 0xE3 \<and> b = CHR 0x80 \<and> c = CHR 0x80))"

text \<open>White space removed at the start; and at the end, on the reversed string.\<close>

fun py_lstrip :: "string \<Rightarrow> string" where
  "py_lstrip (a # b # c # s) =
     (if py_isspace a then py_lstrip (b # c # s)
      else if py_isspace2 a b then py_lstrip (c # s)
      else if py_isspace3 a b c then py_lstrip s
      else a # b # c # s)"
| "py_lstrip [a, b] =
     (if py_isspace a then py_lstrip [b]
      else if py_isspace2 a b then []
      else [a, b])"
| "py_lstrip [a] = (if py_isspace a then [] else [a])"
| "py_lstrip [] = []"

fun py_rstrip_rev :: "string \<Rightarrow> string" where
  "py_rstrip_rev (c # b # a # s) =
     (if py_isspace c then py_rstrip_rev (b # a # s)
      else if py_isspace2 b c then py_rstrip_rev (a # s)
      else if py_isspace3 a b c then py_rstrip_rev s
      else c # b # a # s)"
| "py_rstrip_rev [c, b] =
     (if py_isspace c then py_rstrip_rev [b]
      else if py_isspace2 b c then []
      else [c, b])"
| "py_rstrip_rev [c] = (if py_isspace c then [] else [c])"
| "py_rstrip_rev [] = []"

definition py_strip :: "string \<Rightarrow> string" where
  "py_strip s = rev (py_rstrip_rev (rev (py_lstrip s)))"

text \<open>
  \<^verbatim>\<open>str.lower\<close> on the ASCII range: the letters A to Z are lowered and the bytes of
  other code points are kept. The engine only compares the lowered text with two
  words of ASCII letters, and no code point outside ASCII lowers to one of their
  letters, so the comparisons come out as in Python.
\<close>

definition py_lower_char :: "char \<Rightarrow> char" where
  "py_lower_char c =
     (if 65 \<le> (of_char c :: nat) \<and> (of_char c :: nat) \<le> 90
      then char_of (of_char c + 32 :: nat) else c)"

definition py_lower :: "string \<Rightarrow> string" where
  "py_lower s = map py_lower_char s"

subsection \<open>Rule engine: the advice of the day\<close>

text \<open>
  The constant advisory texts of \<^verbatim>\<open>build_recommendations\<close> (Cafe1.py 236-322;
  CafeLamiaa.py has the same conditions with shorter texts), named in the order of
  their \<^verbatim>\<open>today.append\<close> statements; the last one is the fallback text.
\<close>

datatype advice =
    Late_intake
  | Sleep_under_7h
  | Heart_high_dose
  | Palpitations_reported
  | Focus_band
  | Overstimulation
  | Anxiety_amplified
  | Stress_amplified
  | Headache_reported
  | Irritability_reported
  | Digestive_reported
  | Sensitivity_high
  | Sensitivity_low
  | No_concern

text \<open>The statement \<^verbatim>\<open>if cond: today.append(msg)\<close>.\<close>

definition append_if :: "bool \<Rightarrow> 'a \<Rightarrow> 'a list \<Rightarrow> 'a list" where
  "append_if cond msg xs = (if cond then xs @ [msg] else xs)"

text \<open>
  Lines 206-208: the sensitivity is the empty string when there is no profile row,
  otherwise the stripped text of the profile's cell.
\<close>

definition sensitivity_of :: "participant option \<Rightarrow> string" where
  "sensitivity_of participant_row =
     (case participant_row of None \<Rightarrow> '''' | Some p \<Rightarrow> py_strip (p_sensitivity p))"

text \<open>Lines 210-220 and 236-322 of \<^verbatim>\<open>build_recommendations\<close>, on the latest row.\<close>

definition today_advice :: "string \<Rightarrow> log_row \<Rightarrow> advice list" where
  "today_advice sensitivity latest =
     (let caf = safe_float (caffeine_mg_total latest) 0;
          last_h = safe_int (last_caffeine_hour latest) 0;
          sleep_h = safe_float (sleep_hours latest) 0;
          anxiety = safe_int (anxiety_1_10 latest) 0;
          stress = safe_int (stress_1_10 latest) 0;
          palp = safe_int (palpitations latest) 0;
          head = safe_int (headache latest) 0;
          irrit = safe_int (irritability latest) 0;
          digest = safe_int (digestive latest) 0;
          today = [];
          today = append_if (17 \<le> last_h \<and> 100 \<le> caf) Late_intake today;
          today = append_if (sleep_h < 7) Sleep_under_7h today;
          today = append_if (200 < caf) Heart_high_dose today;
          today = append_if (palp = 1) Palpitations_reported today;
          today = append_if (80 \<le> caf \<and> caf \<le> 150) Focus_band today;
          today = append_if (200 < caf) Overstimulation today;
          today = append_if (7 \<le> anxiety \<and> 150 \<le> caf) Anxiety_amplified today;
          today = append_if (7 \<le> stress \<and> 150 \<le> caf) Stress_amplified today;
          today = append_if (head = 1) Headache_reported today;
          today = append_if (irrit = 1) Irritability_reported today;
          today = append_if (digest = 1) Digestive_reported today;
          today = append_if (py_lower sensitivity = ''forte'' \<and> 150 \<le> caf)
                    Sensitivity_high today;
          today = append_if (py_lower sensitivity = ''faible'' \<and> 300 < caf)
                    Sensitivity_low today;
          today = append_if (today = []) No_concern today
      in today)"



subsection \<open>Summary lines\<close>

text \<open>
  The five summary lines of \<^verbatim>\<open>build_recommendations\<close> (Cafe1.py 225-233), each
  with the values its f-string formats, the optional line for a non-empty
  sensitivity, and the single line of an empty history (line 198).
\<close>

datatype summary_line =
    Sum_no_data
  | Sum_last_date int
  | Sum_caffeine int level
  | Sum_last_intake int
  | Sum_sleep real int
  | Sum_scores int int int
  | Sum_sensitivity string

definition summary_lines :: "string \<Rightarrow> log_row \<Rightarrow> summary_line list" where
  "summary_lines sensitivity latest =
     (let caf = safe_float (caffeine_mg_total latest) 0;
          last_h = safe_int (last_caffeine_hour latest) 0;
          sleep_h = safe_float (sleep_hours latest) 0;
          anxiety = safe_int (anxiety_1_10 latest) 0;
          stress = safe_int (stress_1_10 latest) 0;
          focus = safe_int (focus_1_10 latest) 0;
          lvl = caffeine_level (Some caf);
          summary =
            [Sum_last_date (date latest),
             Sum_caffeine (py_int caf) lvl,
             Sum_last_intake last_h,
             Sum_sleep sleep_h (safe_int (sleep_quality_1_5 latest) 0),
             Sum_scores anxiety stress focus]
      in append_if (sensitivity \<noteq> '''') (Sum_sensitivity sensitivity) summary)"

subsection \<open>Trend analysis over the last seven rows\<close>

text \<open>
  The pattern texts (Cafe1.py 338-381): three carry the count they name, the
  comparison carries the two bin labels and the two means that it prints, and the last
  one is the text appended when nothing else was.
\<close>

datatype caf_bin = Bin_Faible | Bin_Moyen | Bin_Eleve

datatype pattern =
    High_caffeine_days nat
  | Late_intake_days nat
  | Low_sleep_days nat
  | Bin_comparison caf_bin real caf_bin real
  | No_reliable_trend

text \<open>\<^verbatim>\<open>df.tail(k)\<close>: the last \<open>k\<close> rows, all of them when there are fewer.\<close>

definition tail :: "nat \<Rightarrow> 'a list \<Rightarrow> 'a list" where
  "tail k xs = drop (length xs - k) xs"

text \<open>
  \<^verbatim>\<open>int((column OP bound).sum())\<close> on a column made numeric with
  \<^verbatim>\<open>errors="coerce"\<close>: a comparison with \<open>NaN\<close> is false, so only numeric cells count.
\<close>

definition count_where :: "(real \<Rightarrow> bool) \<Rightarrow> real option list \<Rightarrow> nat" where
  "count_where P col =
     length (filter (\<lambda>x. case x of None \<Rightarrow> False | Some v \<Rightarrow> P v) col)"

text \<open>
  \<^verbatim>\<open>pd.cut(column, bins=[-1, 99, 200, 10_000], labels=[...])\<close>: intervals open on the
  left and closed on the right; a value in none of them, or \<open>NaN\<close>, has no bin.
\<close>

definition cut :: "real option \<Rightarrow> caf_bin option" where
  "cut x =
     (case x of
        None \<Rightarrow> None
      | Some v \<Rightarrow>
          if - 1 < v \<and> v \<le> 99 then Some Bin_Faible
          else if 99 < v \<and> v \<le> 200 then Some Bin_Moyen
          else if 200 < v \<and> v \<le> 10000 then Some Bin_Eleve
          else None)"

text \<open>
  The aggregate \<^verbatim>\<open>"mean"\<close>: the mean of the numeric cells, \<open>NaN\<close> when there is none.
  It is the exact mean; pandas computes it in floating point, so where two bins have
  means that differ by less than the rounding error the bin that the comparison names
  may be the other one. Whether a comparison is reported does not depend on it.
\<close>

definition mean_col :: "real option list \<Rightarrow> real option" where
  "mean_col col =
     (let vs = List.map_filter (\<lambda>x. x) col
      in if vs = [] then None else Some (sum_list vs / real (length vs)))"

record group_row =
  g_caf_bin :: caf_bin
  g_sleep_q :: "real option"
  g_sleep_h :: "real option"
  g_anxiety :: "real option"
  g_n :: nat

text \<open>
  \<^verbatim>\<open>groupby("caf_bin", observed=True).agg(...)\<close>: one row for each bin that has
  members, in the order of the labels.
\<close>

definition groupby_caf_bin :: "log_row list \<Rightarrow> group_row list" where
  "groupby_caf_bin rows =
     concat (map (\<lambda>b.
        (let members = filter (\<lambda>r. cut (caffeine_mg_total r) = Some b) rows
         in if members = [] then []
            else [\<lparr>g_caf_bin = b,
                   g_sleep_q = mean_col (map sleep_quality_1_5 members),
                   g_sleep_h = mean_col (map sleep_hours members),
                   g_anxiety = mean_col (map anxiety_1_10 members),
                   g_n = length members\<rparr>]))
        [Bin_Faible, Bin_Moyen, Bin_Eleve])"

text \<open>
  \<^verbatim>\<open>g.dropna(subset=["sleep_q"])\<close>, each remaining row as its label and its mean, and
  the two sorts by that mean. Among equal means the earlier row stays first (the order
  of a stable sort); no property below depends on that choice.
\<close>

definition dropna_sleep_q :: "group_row list \<Rightarrow> (caf_bin \<times> real) list" where
  "dropna_sleep_q g =
     List.map_filter (\<lambda>row. map_option (\<lambda>q. (g_caf_bin row, q)) (g_sleep_q row)) g"

definition sort_descending :: "(caf_bin \<times> real) list \<Rightarrow> (caf_bin \<times> real) list" where
  "sort_descending rows = sort_key (\<lambda>row. - snd row) rows"

definition sort_ascending :: "(caf_bin \<times> real) list \<Rightarrow> (caf_bin \<times> real) list" where
  "sort_ascending rows = sort_key snd rows"

text \<open>
  Lines 368-378: the comparison is attempted when the grouped frame is not empty and
  its sizes add up to five or more; \<^verbatim>\<open>.iloc[0]\<close> on an empty frame raises, and the
  \<^verbatim>\<open>except\<close> clause then leaves the patterns as they are.
\<close>

definition bin_comparison :: "group_row list \<Rightarrow> pattern list \<Rightarrow> pattern list" where
  "bin_comparison g patterns =
     (if g \<noteq> [] \<and> 5 \<le> sum_list (map g_n g) then
        (case sort_descending (dropna_sleep_q g) of
           [] \<Rightarrow> patterns
         | best # _ \<Rightarrow>
             (case sort_ascending (dropna_sleep_q g) of
                [] \<Rightarrow> patterns
              | worst # _ \<Rightarrow>
                  patterns @ [Bin_comparison (fst best) (snd best) (fst worst) (snd worst)]))
      else patterns)"

text \<open>The three counters and their pattern texts (lines 334-353).\<close>

definition low_sleep_days :: "log_row list \<Rightarrow> nat" where
  "low_sleep_days last7 = count_where (\<lambda>v. v < 7) (map sleep_hours last7)"

definition high_caf_days :: "log_row list \<Rightarrow> nat" where
  "high_caf_days last7 = count_where (\<lambda>v. 200 < v) (map caffeine_mg_total last7)"

definition late_days :: "log_row list \<Rightarrow> nat" where
  "late_days last7 = count_where (\<lambda>v. 17 \<le> v) (map last_caffeine_hour last7)"

definition counter_patterns :: "log_row list \<Rightarrow> pattern list \<Rightarrow> pattern list" where
  "counter_patterns last7 patterns =
     (let patterns =
            append_if (3 \<le> high_caf_days last7) (High_caffeine_days (high_caf_days last7))
              patterns;
          patterns =
            append_if (3 \<le> late_days last7) (Late_intake_days (late_days last7)) patterns;
          patterns =
            append_if (3 \<le> low_sleep_days last7) (Low_sleep_days (low_sleep_days last7))
              patterns
      in patterns)"

text \<open>
  Lines 324-381 of Cafe1.py on the sorted frame, and lines 291-311 of CafeLamiaa.py,
  which have the counters but no comparison of bins.
\<close>

definition trend_patterns :: "log_row list \<Rightarrow> pattern list" where
  "trend_patterns df =
     (let patterns = [];
          last7 = tail 7 df;
          patterns =
            (if 3 \<le> length last7 then
               (let patterns = counter_patterns last7 patterns;
                    g = groupby_caf_bin last7
                in bin_comparison g patterns)
             else patterns)
      in append_if (patterns = []) No_reliable_trend patterns)"

definition trend_patterns_lamiaa :: "log_row list \<Rightarrow> pattern list" where
  "trend_patterns_lamiaa df =
     (let patterns = [];
          last7 = tail 7 df;
          patterns =
            (if 3 \<le> length last7 then counter_patterns last7 patterns else patterns)
      in append_if (patterns = []) No_reliable_trend patterns)"

subsection \<open>The report\<close>

record pack =
  summary :: "summary_line list"
  today :: "advice list"
  patterns :: "pattern list"

text \<open>
  \<^verbatim>\<open>build_recommendations\<close> (Cafe1.py 189-383). An empty frame is answered at once,
  with no advice and no pattern. Otherwise the frame is sorted by date and the latest
  row is the last one. (\<^verbatim>\<open>sort_values\<close> is modelled by a stable sort; on a history
  with one row per date, which the store guarantees, every sort gives the same frame.)
\<close>

definition build_recommendations :: "participant option \<Rightarrow> log_row list \<Rightarrow> pack" where
  "build_recommendations participant_row logs_df =
     (if logs_df = [] then
        \<lparr>summary = [Sum_no_data], today = [], patterns = []\<rparr>
      else
        (let df = sort_key date logs_df;
             latest = last df;
             sensitivity = sensitivity_of participant_row
         in \<lparr>summary = summary_lines sensitivity latest,
             today = today_advice sensitivity latest,
             patterns = trend_patterns df\<rparr>))"

definition build_recommendations_lamiaa :: "participant option \<Rightarrow> log_row list \<Rightarrow> pack" where
  "build_recommendations_lamiaa participant_row logs_df =
     (if logs_df = [] then
        \<lparr>summary = [Sum_no_data], today = [], patterns = []\<rparr>
      else
        (let df = sort_key date logs_df;
             latest = last df;
             sensitivity = sensitivity_of participant_row
         in \<lparr>summary = summary_lines sensitivity latest,
             today = today_advice sensitivity latest,
             patterns = trend_patterns_lamiaa df\<rparr>))"

subsection \<open>A row as the entry form saves it\<close>

text \<open>
  The row that the daily entry form writes for participant \<open>P001\<close> when the sliders
  are left at their initial values (stress 5, anxiety 4, focus 6), no symptom is
  ticked and no drink detail is kept; the date, the total, the hour of the last
  intake, the sleep duration and the sleep quality are the arguments. It serves as
  the concrete input of the examples.
\<close>

definition sample_row :: "int \<Rightarrow> real \<Rightarrow> real \<Rightarrow> real \<Rightarrow> real \<Rightarrow> log_row" where
  "sample_row d caf last_h sleep_h quality =
     \<lparr>date = d, participant_id = ''P001'',
      caffeine_mg_total = Some caf, last_caffeine_hour = Some last_h,
      bed_hour = Some 23, wake_hour = Some 7, sleep_hours = Some sleep_h,
      sleep_quality_1_5 = Some quality,
      stress_1_10 = Some 5, anxiety_1_10 = Some 4, focus_1_10 = Some 6,
      palpitations = Some 0, headache = Some 0, irritability = Some 0, digestive = Some 0,
      drinks_detail = '''', created_at = ''''\<rparr>"

subsection \<open>The weekly insights of cafe.py\<close>

text \<open>
  \<^verbatim>\<open>weekly_insights\<close> (cafe.py 207-260), the sibling of the trend analysis. Its
  comparison of bins is guarded by \<^verbatim>\<open>len(valid) >= 2\<close> and also prints the sizes of the
  two bins. The three correlation lines are named without the coefficient they print
  (a floating-point computation).
\<close>

datatype insight =
    Not_enough_days
  | Sleep_quality_comparison caf_bin real nat caf_bin real nat
  | Correlation_sleep_quality
  | Correlation_sleep_hours
  | Correlation_anxiety
  | Insights_not_generated

definition dropna_sleep_quality_mean :: "group_row list \<Rightarrow> (caf_bin \<times> real \<times> nat) list" where
  "dropna_sleep_quality_mean g =
     List.map_filter (\<lambda>row. map_option (\<lambda>q. (g_caf_bin row, q, g_n row)) (g_sleep_q row)) g"

definition weekly_insights :: "log_row list \<Rightarrow> insight list" where
  "weekly_insights logs_df =
     (if logs_df = [] \<or> length logs_df < 5 then [Not_enough_days]
      else
        (let insights = [];
             g = groupby_caf_bin logs_df;
             insights =
               (if g \<noteq> [] then
                  (let valid = dropna_sleep_quality_mean g;
                       insights =
                         (if 2 \<le> length valid then
                            (let best = hd (sort_key (\<lambda>row. - fst (snd row)) valid);
                                 worst = hd (sort_key (\<lambda>row. fst (snd row)) valid)
                             in insights @
                                [Sleep_quality_comparison
                                   (fst best) (fst (snd best)) (snd (snd best))
                                   (fst worst) (fst (snd worst)) (snd (snd worst))])
                          else insights)
                   in insights @
                      [Correlation_sleep_quality, Correlation_sleep_hours, Correlation_anxiety])
                else insights)
         in append_if (insights = []) Insights_not_generated insights))"

subsection \<open>The daily entry form and the store\<close>

text \<open>
  The values of the widgets of the form \<^verbatim>\<open>daily_entry\<close> (Cafe1.py 479-535) when it is
  submitted, and the row that the handler builds from them (lines 552-570, and again
  577-595). The symptoms are stored as \<^verbatim>\<open>int(bool)\<close>.
\<close>

record entry_form =
  f_pid :: string
  f_entry_date :: int
  f_drink_qty :: "(string \<times> int) list"
  f_last_caffeine_hour :: int
  f_bed_hour :: int
  f_wake_hour :: int
  f_sleep_quality :: int
  f_stress :: int
  f_anxiety :: int
  f_focus :: int
  f_palpitations :: bool
  f_headache :: bool
  f_irritability :: bool
  f_digestive :: bool

definition new_row :: "entry_form \<Rightarrow> string \<Rightarrow> log_row" where
  "new_row form now =
     (let sleep_h = compute_sleep_hours_from_hours (f_bed_hour form) (f_wake_hour form);
          caf_total = fst (compute_caffeine_total (f_drink_qty form));
          detail = snd (compute_caffeine_total (f_drink_qty form))
      in \<lparr>date = f_entry_date form,
          participant_id = f_pid form,
          caffeine_mg_total = Some (of_int caf_total),
          last_caffeine_hour = Some (of_int (f_last_caffeine_hour form)),
          bed_hour = Some (of_int (f_bed_hour form)),
          wake_hour = Some (of_int (f_wake_hour form)),
          sleep_hours = Some sleep_h,
          sleep_quality_1_5 = Some (of_int (f_sleep_quality form)),
          stress_1_10 = Some (of_int (f_stress form)),
          anxiety_1_10 = Some (of_int (f_anxiety form)),
          focus_1_10 = Some (of_int (f_focus form)),
          palpitations = Some (of_bool (f_palpitations form)),
          headache = Some (of_bool (f_headache form)),
          irritability = Some (of_bool (f_irritability form)),
          digestive = Some (of_bool (f_digestive form)),
          drinks_detail = detail,
          created_at = now\<rparr>)"

text \<open>
  What the handler shows: the error of a duplicate, or the success line with the
  participant, the date, the total and the sleep duration.
\<close>

datatype ui_message =
    Duplicate_entry_error
  | Saved string int int real

text \<open>
  The submit handler (Cafe1.py 537-602, cafe.py 399-452) as a function of the rows of
  the log file, the form and the clock: it returns what it shows and the rows of the
  file afterwards. \<^verbatim>\<open>save_logs\<close> is called on the two paths that append, and not on
  the path of the duplicate.
\<close>

definition daily_entry_submit ::
    "log_row list \<Rightarrow> entry_form \<Rightarrow> string \<Rightarrow> ui_message \<times> log_row list" where
  "daily_entry_submit logs form now =
     (let caf_total = fst (compute_caffeine_total (f_drink_qty form));
          sleep_h = compute_sleep_hours_from_hours (f_bed_hour form) (f_wake_hour form)
      in if logs \<noteq> [] then
           (let dup = filter (\<lambda>r. participant_id r = f_pid form \<and> date r = f_entry_date form)
                        logs
            in if dup \<noteq> [] then (Duplicate_entry_error, logs)
               else (Saved (f_pid form) (f_entry_date form) caf_total sleep_h,
                     logs @ [new_row form now]))
         else (Saved (f_pid form) (f_entry_date form) caf_total sleep_h,
               logs @ [new_row form now]))"

text \<open>
  The form as it is first shown for a participant and a date: no drink, last intake
  at 16h, bed at 23h, wake at 7h, quality 3, stress 5, anxiety 4, focus 6, no symptom.
\<close>

definition initial_form :: "string \<Rightarrow> int \<Rightarrow> entry_form" where
  "initial_form pid entry_date =
     \<lparr>f_pid = pid, f_entry_date = entry_date,
      f_drink_qty = map (\<lambda>(drink, mg_unit). (drink, 0)) CAFFEINE_CATALOG,
      f_last_caffeine_hour = 16, f_bed_hour = 23, f_wake_hour = 7,
      f_sleep_quality = 3, f_stress = 5, f_anxiety = 4, f_focus = 6,
      f_palpitations = False, f_headache = False, f_irritability = False,
      f_digestive = False\<rparr>"

subsection \<open>The rule engine of cafe.py\<close>

text \<open>
  \<^verbatim>\<open>recommendations_for_row\<close> (cafe.py 168-204), an earlier and shorter rule engine:
  six of the rules, with the dose rule first. It converts the cells itself, with no
  \<^verbatim>\<open>safe_float\<close>, so here a cell is one of three things: a float, \<open>NaN\<close> (an empty
  field of the file), or a text that \<^verbatim>\<open>float\<close> rejects. (A text that denotes a number
  is not modelled: pandas reads a column of numbers as floats.) Of the row, the six
  cells that the function reads are kept.
\<close>

datatype cell = Float_cell real | NaN_cell | Text_cell

record cafe_row =
  c_caffeine_mg_total :: cell
  c_last_caffeine_hour :: cell
  c_sleep_hours :: cell
  c_anxiety_1_10 :: cell
  c_stress_1_10 :: cell
  c_palpitations :: cell

datatype py_exception = ValueError

text \<open>
  \<^verbatim>\<open>float(x or 0)\<close>: a float stays (zero is replaced by \<open>0\<close>, the same number), a
  \<open>NaN\<close> is true in Python and stays \<open>NaN\<close>, here \<open>None\<close>; a text raises.
  \<^verbatim>\<open>int(x or 0)\<close>: a float is truncated, a \<open>NaN\<close> and a text raise.
\<close>

definition float_or_0 :: "cell \<Rightarrow> py_exception + real option" where
  "float_or_0 x =
     (case x of
        Float_cell v \<Rightarrow> Inr (Some v)
      | NaN_cell \<Rightarrow> Inr None
      | Text_cell \<Rightarrow> Inl ValueError)"

definition int_or_0 :: "cell \<Rightarrow> py_exception + int" where
  "int_or_0 x =
     (case x of
        Float_cell v \<Rightarrow> Inr (py_int v)
      | NaN_cell \<Rightarrow> Inl ValueError
      | Text_cell \<Rightarrow> Inl ValueError)"

datatype recommendation =
    Rec_high_dose
  | Rec_late_intake
  | Rec_sleep_under_7h
  | Rec_anxiety
  | Rec_stress
  | Rec_palpitations
  | Rec_nothing_major

text \<open>A comparison with a float that may be \<open>NaN\<close>: false on \<open>NaN\<close>.\<close>

definition cell_holds :: "(real \<Rightarrow> bool) \<Rightarrow> real option \<Rightarrow> bool" where
  "cell_holds P x = (case x of None \<Rightarrow> False | Some v \<Rightarrow> P v)"

text \<open>
  Lines 178-199: the six rules on the converted values. The hour of the last intake
  is still a cell: it is converted inside a \<^verbatim>\<open>try\<close>, and on a \<open>NaN\<close> or a text
  the \<^verbatim>\<open>except\<close> clause skips the rule.
\<close>

definition fired_recommendations ::
    "real option \<Rightarrow> cell \<Rightarrow> real option \<Rightarrow> real option \<Rightarrow> real option \<Rightarrow> int
     \<Rightarrow> recommendation list" where
  "fired_recommendations caf last_h sleep_h anxiety stress palp =
     (let recs = [];
          recs = append_if (cell_holds (\<lambda>v. 200 < v) caf) Rec_high_dose recs;
          recs =
            (case last_h of
               Float_cell h \<Rightarrow>
                 append_if (17 \<le> py_int h \<and> cell_holds (\<lambda>v. 100 \<le> v) caf)
                   Rec_late_intake recs
             | NaN_cell \<Rightarrow> recs
             | Text_cell \<Rightarrow> recs);
          recs = append_if (cell_holds (\<lambda>v. v < 7) sleep_h) Rec_sleep_under_7h recs;
          recs =
            append_if (cell_holds (\<lambda>v. 7 \<le> v) anxiety \<and> cell_holds (\<lambda>v. 150 \<le> v) caf)
              Rec_anxiety recs;
          recs =
            append_if (cell_holds (\<lambda>v. 7 \<le> v) stress \<and> cell_holds (\<lambda>v. 150 \<le> v) caf)
              Rec_stress recs;
          recs = append_if (palp = 1) Rec_palpitations recs
      in recs)"

text \<open>
  The whole function: lines 171-176 convert five cells in this order, and the first
  conversion that raises ends the call; then the rules, then the fallback.
\<close>

definition recommendations_for_row :: "cafe_row \<Rightarrow> py_exception + recommendation list" where
  "recommendations_for_row row =
     (case float_or_0 (c_caffeine_mg_total row) of
        Inl e \<Rightarrow> Inl e
      | Inr caf \<Rightarrow>
     (case float_or_0 (c_sleep_hours row) of
        Inl e \<Rightarrow> Inl e
      | Inr sleep_h \<Rightarrow>
     (case float_or_0 (c_anxiety_1_10 row) of
        Inl e \<Rightarrow> Inl e
      | Inr anxiety \<Rightarrow>
     (case float_or_0 (c_stress_1_10 row) of
        Inl e \<Rightarrow> Inl e
      | Inr stress \<Rightarrow>
     (case int_or_0 (c_palpitations row) of
        Inl e \<Rightarrow> Inl e
      | Inr palp \<Rightarrow>
          (let recs =
                 fired_recommendations caf (c_last_caffeine_hour row) sleep_h anxiety stress
                   palp;
               recs = append_if (recs = []) Rec_nothing_major recs
           in Inr recs))))))"

text \<open>
  The rules of cafe.py as a table, for comparison with the code: the six texts in the
  order of their \<^verbatim>\<open>recs.append\<close> statements, the predicate of each on the cells, the
  rows on which a conversion raises, and for each text the rule of the table of the
  specification that has its predicate (the dose text stands for both rules on a
  total above 200; the first of them is taken).
\<close>

definition cafe_rule_table :: "recommendation list" where
  "cafe_rule_table =
     [Rec_high_dose, Rec_late_intake, Rec_sleep_under_7h, Rec_anxiety, Rec_stress,
      Rec_palpitations]"

definition cell_value :: "cell \<Rightarrow> real option" where
  "cell_value x = (case x of Float_cell v \<Rightarrow> Some v | NaN_cell \<Rightarrow> None | Text_cell \<Rightarrow> None)"

fun cafe_rule_holds :: "cafe_row \<Rightarrow> recommendation \<Rightarrow> bool" where
  "cafe_rule_holds r Rec_high_dose =
     cell_holds (\<lambda>v. 200 < v) (cell_value (c_caffeine_mg_total r))"
| "cafe_rule_holds r Rec_late_intake =
     (cell_holds (\<lambda>h. 17 \<le> py_int h) (cell_value (c_last_caffeine_hour r))
      \<and> cell_holds (\<lambda>v. 100 \<le> v) (cell_value (c_caffeine_mg_total r)))"
| "cafe_rule_holds r Rec_sleep_under_7h =
     cell_holds (\<lambda>v. v < 7) (cell_value (c_sleep_hours r))"
| "cafe_rule_holds r Rec_anxiety =
     (cell_holds (\<lambda>v. 7 \<le> v) (cell_value (c_anxiety_1_10 r))
      \<and> cell_holds (\<lambda>v. 150 \<le> v) (cell_value (c_caffeine_mg_total r)))"
| "cafe_rule_holds r Rec_stress =
     (cell_holds (\<lambda>v. 7 \<le> v) (cell_value (c_stress_1_10 r))
      \<and> cell_holds (\<lambda>v. 150 \<le> v) (cell_value (c_caffeine_mg_total r)))"
| "cafe_rule_holds r Rec_palpitations =
     cell_holds (\<lambda>v. py_int v = 1) (cell_value (c_palpitations r))"
| "cafe_rule_holds r Rec_nothing_major = False"

definition cafe_raises :: "cafe_row \<Rightarrow> bool" where
  "cafe_raises r =
     (c_caffeine_mg_total r = Text_cell \<or> c_sleep_hours r = Text_cell
      \<or> c_anxiety_1_10 r = Text_cell \<or> c_stress_1_10 r = Text_cell
      \<or> c_palpitations r = Text_cell \<or> c_palpitations r = NaN_cell)"


section \<open>Properties\<close>

lemma py_round2_of_int: "py_round2 (of_int n) = of_int n"
proof -
  have "\<lfloor>(of_int n :: real) * 100\<rfloor> = n * 100"
    by (metis floor_of_int of_int_mult of_int_numeral)
  then show ?thesis
    by (simp add: py_round2_def Let_def)
qed

text \<open>
  Claim C2. For every bed and wake hour (in particular for those in 0..23) the sleep
  duration is wake minus bed when wake is after bed, and wake plus 24 minus bed
  otherwise, in both variants of the function; so a night from 23h to 7h lasts 8 hours,
  one from 7h to 23h lasts 16 hours, and equal hours give a full 24 hours, not zero.
\<close>

theorem sleep_duration_wraparound:
  "compute_sleep_hours_from_hours bed wake =
     (if bed < wake then of_int (wake - bed) else of_int (wake + 24 - bed))
   \<and> compute_sleep_hours_from_hours_lamiaa bed wake =
     (if bed < wake then of_int (wake - bed) else of_int (wake + 24 - bed))
   \<and> compute_sleep_hours_from_hours 23 7 = 8
   \<and> compute_sleep_hours_from_hours 7 23 = 16
   \<and> compute_sleep_hours_from_hours 7 7 = 24"
proof -
  have gen: "compute_sleep_hours_from_hours b w =
      (if b < w then of_int (w - b) else of_int (w + 24 - b))" for b w
    unfolding compute_sleep_hours_from_hours_def Let_def py_round2_of_int
    by simp
  have lam: "compute_sleep_hours_from_hours_lamiaa b w =
      (if b < w then of_int (w - b) else of_int (w + 24 - b))" for b w
    unfolding compute_sleep_hours_from_hours_lamiaa_def Let_def
    by simp
  show ?thesis
    using gen [of bed wake] lam [of bed wake] gen [of 23 7] gen [of 7 23] gen [of 7 7]
    by simp
qed

text \<open>
  Claim C3. The intake level of a total is Low (\<open>Faible\<close>) exactly when the total is
  below 100, Medium (\<open>Moyen\<close>) exactly when it is between 100 and 200, both bounds
  included, and High (\<open>Eleve\<close>) exactly when it is above 200, for \<^verbatim>\<open>caffeine_level\<close>
  and for \<^verbatim>\<open>risk_level\<close> alike; so 99.9 is Low, 100 and 200 are Medium and 200.01
  is High.
\<close>

theorem intake_level_boundaries:
  "(caffeine_level (Some t) = Faible \<longleftrightarrow> t < 100)
   \<and> (caffeine_level (Some t) = Moyen \<longleftrightarrow> 100 \<le> t \<and> t \<le> 200)
   \<and> (caffeine_level (Some t) = Eleve \<longleftrightarrow> 200 < t)
   \<and> risk_level t = caffeine_level (Some t)
   \<and> caffeine_level (Some 99.9) = Faible
   \<and> caffeine_level (Some 100) = Moyen
   \<and> caffeine_level (Some 200) = Moyen
   \<and> caffeine_level (Some 200.01) = Eleve"
  by (simp add: caffeine_level_def risk_level_def)


subsection \<open>Total intake and breakdown\<close>

lemma caffeine_loop_eq:
  "caffeine_loop dq t p =
     (t + sum_list (map (\<lambda>(d, q). if q \<le> 0 then 0 else q * catalog_get d 0) dq),
      p @ map (\<lambda>(d, q). format_part d q (q * catalog_get d 0))
            (filter (\<lambda>(d, q). 0 < q) dq))"
proof (induction dq arbitrary: t p)
  case Nil
  show ?case by simp
next
  case (Cons a dq)
  obtain d q where a: "a = (d, q)" by (cases a)
  show ?case
    by (simp add: a Cons.IH Let_def)
qed

lemma sum_nonneg_counts:
  "list_all (\<lambda>(d, q). 0 \<le> q) dq \<Longrightarrow>
   sum_list (map (\<lambda>(d, q). if q \<le> 0 then 0 else q * catalog_get d 0) dq)
     = sum_list (map (\<lambda>(d, q). q * catalog_get d 0) dq)"
  by (induction dq) auto

lemma join_guard: "(if ps \<noteq> [] then join sep ps else '''') = join sep ps"
  by (cases ps) simp_all

lemma compute_caffeine_total_eq:
  "compute_caffeine_total dq =
     (sum_list (map (\<lambda>(d, q). if q \<le> 0 then 0 else q * catalog_get d 0) dq),
      join '' | '' (map (\<lambda>(d, q). format_part d q (q * catalog_get d 0))
                      (filter (\<lambda>(d, q). 0 < q) dq)))"
  by (simp only: compute_caffeine_total_def caffeine_loop_eq split_conv append_Nil
      join_guard add_0)

lemma breakdown_parts_eq:
  "breakdown_parts dq =
     map (\<lambda>(d, q). format_part d q (q * catalog_get d 0)) (filter (\<lambda>(d, q). 0 < q) dq)"
  by (simp add: breakdown_parts_def caffeine_loop_eq)

lemma aligned_pointwise:
  "map fst xs = map fst cs \<Longrightarrow>
   list_all (\<lambda>(d, q). cnt d = q) xs \<Longrightarrow>
   list_all (\<lambda>(i, m). get i = m) cs \<Longrightarrow>
   map (\<lambda>(i, m). F i (cnt i) (cnt i * m)) (filter (\<lambda>(i, m). 0 < cnt i) cs)
     = map (\<lambda>(d, q). F d q (q * get d)) (filter (\<lambda>(d, q). (0::int) < q) xs)"
proof (induction xs arbitrary: cs)
  case Nil
  then show ?case by simp
next
  case (Cons x xs)
  then obtain c cs' where cs: "cs = c # cs'" by (cases cs) auto
  obtain d q where x: "x = (d, q)" by (cases x)
  obtain i m where c: "c = (i, m)" by (cases c)
  from Cons.prems cs x c have eqs: "i = d" "cnt d = q" "get d = m"
    by auto
  from Cons.prems cs have tl: "map fst xs = map fst cs'"
    "list_all (\<lambda>(d, q). cnt d = q) xs" "list_all (\<lambda>(i, m). get i = m) cs'"
    by auto
  show ?case
    using Cons.IH [OF tl] by (simp add: cs x c eqs)
qed

lemma distinct_lookup:
  "distinct (map fst xs) \<Longrightarrow> list_all (\<lambda>(d, q). map_of xs d = Some q) xs"
  by (auto simp: list_all_iff)

lemma catalog_distinct: "distinct (map fst CAFFEINE_CATALOG)"
  by (simp add: CAFFEINE_CATALOG_def e_acute_def)

lemma catalog_order_breakdown:
  assumes "map fst dq = map fst CAFFEINE_CATALOG"
  shows "map (\<lambda>(d, q). format_part d q (q * catalog_get d 0)) (filter (\<lambda>(d, q). 0 < q) dq)
     = map (\<lambda>(item, mg_unit).
               format_part item (quantity_of dq item) (quantity_of dq item * mg_unit))
          (filter (\<lambda>(item, mg_unit). 0 < quantity_of dq item) CAFFEINE_CATALOG)"
proof -
  have d: "distinct (map fst dq)"
    using assms catalog_distinct by simp
  have 1: "list_all (\<lambda>(d, q). quantity_of dq d = q) dq"
    using distinct_lookup [OF d] by (auto simp: list_all_iff quantity_of_def)
  have 2: "list_all (\<lambda>(i, m). catalog_get i 0 = m) CAFFEINE_CATALOG"
    using distinct_lookup [OF catalog_distinct] by (auto simp: list_all_iff catalog_get_def)
  show ?thesis
    using aligned_pointwise [OF assms 1 2, of format_part] by simp
qed

lemmas catalog_eval =
  compute_caffeine_total_def catalog_get_def CAFFEINE_CATALOG_def e_acute_def
  format_part_def str_int_def str_nat.simps digit_char_def

text \<open>
  Claim C8, as the code has it. For every mapping with non-negative counts the total
  is the sum, over the mapping's items, of count times the catalog's per-unit mg; the
  breakdown lists exactly the items with a positive count, each as
  \<open>item xCOUNT (MG mg)\<close>, joined by \<open> | \<close>, in the iteration order of the mapping
  itself. When the mapping lists the catalog's items in the catalog's order, as the
  entry form builds it, that order is the catalog's. The mapping
  \<open>{Espresso: 2, Cafe filtre: 0, Cola: 1}\<close> yields \<open>2 * mg(Espresso) + 1 * mg(Cola)\<close>
  and a breakdown without the second item.
\<close>

theorem compute_caffeine_total_breakdown:
  assumes "list_all (\<lambda>(d, q). 0 \<le> q) drink_qty"
  shows "fst (compute_caffeine_total drink_qty)
           = sum_list (map (\<lambda>(d, q). q * catalog_get d 0) drink_qty)
       \<and> snd (compute_caffeine_total drink_qty)
           = join '' | '' (map (\<lambda>(d, q). format_part d q (q * catalog_get d 0))
                            (filter (\<lambda>(d, q). 0 < q) drink_qty))
       \<and> (map fst drink_qty = map fst CAFFEINE_CATALOG \<longrightarrow>
            snd (compute_caffeine_total drink_qty) = breakdown_catalog_order drink_qty)
       \<and> compute_caffeine_total
            [(''Espresso (30 ml)'', 2), (''Caf'' @ e_acute @ '' filtre (250 ml)'', 0),
             (''Cola (330 ml)'', 1)]
           = (2 * catalog_get ''Espresso (30 ml)'' 0 + 1 * catalog_get ''Cola (330 ml)'' 0,
              ''Espresso (30 ml) x2 (150 mg) | Cola (330 ml) x1 (35 mg)'')"
proof -
  have a: "fst (compute_caffeine_total drink_qty)
           = sum_list (map (\<lambda>(d, q). q * catalog_get d 0) drink_qty)"
    by (simp add: compute_caffeine_total_eq sum_nonneg_counts [OF assms])
  have b: "snd (compute_caffeine_total drink_qty)
           = join '' | '' (map (\<lambda>(d, q). format_part d q (q * catalog_get d 0))
                            (filter (\<lambda>(d, q). 0 < q) drink_qty))"
    by (simp add: compute_caffeine_total_eq)
  have c: "map fst drink_qty = map fst CAFFEINE_CATALOG \<longrightarrow>
            snd (compute_caffeine_total drink_qty) = breakdown_catalog_order drink_qty"
    by (simp add: compute_caffeine_total_eq breakdown_catalog_order_def catalog_order_breakdown)
  have e: "compute_caffeine_total
            [(''Espresso (30 ml)'', 2), (''Caf'' @ e_acute @ '' filtre (250 ml)'', 0),
             (''Cola (330 ml)'', 1)]
           = (2 * catalog_get ''Espresso (30 ml)'' 0 + 1 * catalog_get ''Cola (330 ml)'' 0,
              ''Espresso (30 ml) x2 (150 mg) | Cola (330 ml) x1 (35 mg)'')"
    by (simp add: catalog_eval)
  show ?thesis using a b c e by blast
qed

text \<open>
  The theorem at the form's mapping with two espressos and one cola: the counts are
  non-negative, the keys are the catalog's, the total is 185 mg and the breakdown is
  the one the specification describes.
\<close>

theorem compute_caffeine_total_breakdown_witness:
  "list_all (\<lambda>(d, q). 0 \<le> q)
     (map (\<lambda>(d, mg). (d, if d = ''Espresso (30 ml)'' then 2
                           else if d = ''Cola (330 ml)'' then 1 else (0::int))) CAFFEINE_CATALOG)
   \<and> map fst (map (\<lambda>(d, mg). (d, if d = ''Espresso (30 ml)'' then 2
                           else if d = ''Cola (330 ml)'' then 1 else (0::int))) CAFFEINE_CATALOG)
       = map fst CAFFEINE_CATALOG
   \<and> fst (compute_caffeine_total
       (map (\<lambda>(d, mg). (d, if d = ''Espresso (30 ml)'' then 2
                           else if d = ''Cola (330 ml)'' then 1 else 0)) CAFFEINE_CATALOG)) = 185
   \<and> breakdown_catalog_order
       (map (\<lambda>(d, mg). (d, if d = ''Espresso (30 ml)'' then 2
                           else if d = ''Cola (330 ml)'' then 1 else 0)) CAFFEINE_CATALOG)
       = ''Espresso (30 ml) x2 (150 mg) | Cola (330 ml) x1 (35 mg)''"
proof -
  let ?dq = "map (\<lambda>(d, mg). (d, if d = ''Espresso (30 ml)'' then 2
                           else if d = ''Cola (330 ml)'' then 1 else (0::int))) CAFFEINE_CATALOG"
  have h: "list_all (\<lambda>(d, q). 0 \<le> q) ?dq"
    by (simp add: CAFFEINE_CATALOG_def)
  have k: "map fst ?dq = map fst CAFFEINE_CATALOG"
    by (simp add: CAFFEINE_CATALOG_def)
  have v: "compute_caffeine_total ?dq
      = (185, ''Espresso (30 ml) x2 (150 mg) | Cola (330 ml) x1 (35 mg)'')"
    by (simp add: catalog_eval)
  from compute_caffeine_total_breakdown [OF h]
  have imp: "map fst ?dq = map fst CAFFEINE_CATALOG \<longrightarrow>
      snd (compute_caffeine_total ?dq) = breakdown_catalog_order ?dq"
    by blast
  from imp k have s: "snd (compute_caffeine_total ?dq) = breakdown_catalog_order ?dq"
    by blast
  have b: "breakdown_catalog_order ?dq
      = ''Espresso (30 ml) x2 (150 mg) | Cola (330 ml) x1 (35 mg)''"
    by (simp only: s [symmetric] v snd_conv)
  have f: "fst (compute_caffeine_total ?dq) = 185"
    by (simp only: v fst_conv)
  from h k f b show ?thesis by blast
qed

text \<open>
  The claim as stated fails on a mapping whose own order is not the catalog's: the
  breakdown follows the mapping, here cola before espresso.
\<close>

theorem breakdown_order_counterexample:
  "snd (compute_caffeine_total [(''Cola (330 ml)'', 1), (''Espresso (30 ml)'', 1)])
     = ''Cola (330 ml) x1 (35 mg) | Espresso (30 ml) x1 (75 mg)''
   \<and> breakdown_catalog_order [(''Cola (330 ml)'', 1), (''Espresso (30 ml)'', 1)]
     = ''Espresso (30 ml) x1 (75 mg) | Cola (330 ml) x1 (35 mg)''
   \<and> snd (compute_caffeine_total [(''Cola (330 ml)'', 1), (''Espresso (30 ml)'', 1)])
     \<noteq> breakdown_catalog_order [(''Cola (330 ml)'', 1), (''Espresso (30 ml)'', 1)]"
  by (simp add: catalog_eval breakdown_catalog_order_def quantity_of_def)

text \<open>
  Claim C10. A label that the catalog does not have contributes nothing to the total,
  whatever its count (the per-unit lookup defaults to 0); with a positive count it is
  still listed in the breakdown, at its place in the mapping, as
  \<open>label xCOUNT (0 mg)\<close>.
\<close>

theorem unknown_item_zero_mg:
  assumes "map_of CAFFEINE_CATALOG drink = None"
  shows "fst (compute_caffeine_total (before @ (drink, qty) # after))
           = fst (compute_caffeine_total (before @ after))
       \<and> (0 < qty \<longrightarrow>
            breakdown_parts (before @ (drink, qty) # after)
              = breakdown_parts before @ [drink @ '' x'' @ str_int qty @ '' (0 mg)'']
                  @ breakdown_parts after
          \<and> snd (compute_caffeine_total (before @ (drink, qty) # after))
              = join '' | '' (breakdown_parts (before @ (drink, qty) # after)))"
proof -
  have g: "catalog_get drink 0 = 0"
    using assms by (simp add: catalog_get_def)
  have z: "str_int 0 = ''0''"
    by (simp add: str_int_def str_nat.simps digit_char_def)
  show ?thesis
    by (simp add: compute_caffeine_total_eq breakdown_parts_eq g z format_part_def)
qed

theorem unknown_item_zero_mg_witness:
  "map_of CAFFEINE_CATALOG ''Mate (500 ml)'' = None
   \<and> (0::int) < 3
   \<and> compute_caffeine_total
        [(''Espresso (30 ml)'', 1), (''Mate (500 ml)'', 3), (''Cola (330 ml)'', 2)]
       = (145, ''Espresso (30 ml) x1 (75 mg) | Mate (500 ml) x3 (0 mg) | Cola (330 ml) x2 (70 mg)'')
   \<and> fst (compute_caffeine_total [(''Espresso (30 ml)'', 1), (''Cola (330 ml)'', 2)]) = 145
   \<and> breakdown_parts
        [(''Espresso (30 ml)'', 1), (''Mate (500 ml)'', 3), (''Cola (330 ml)'', 2)]
       = [''Espresso (30 ml) x1 (75 mg)'', ''Mate (500 ml) x3 (0 mg)'',
          ''Cola (330 ml) x2 (70 mg)'']"
proof -
  have h: "map_of CAFFEINE_CATALOG ''Mate (500 ml)'' = None"
    by (simp add: CAFFEINE_CATALOG_def e_acute_def)
  have v: "compute_caffeine_total
        [(''Espresso (30 ml)'', 1), (''Mate (500 ml)'', 3), (''Cola (330 ml)'', 2)]
       = (145, ''Espresso (30 ml) x1 (75 mg) | Mate (500 ml) x3 (0 mg) | Cola (330 ml) x2 (70 mg)'')"
    by (simp add: catalog_eval)
  have p1: "breakdown_parts [(''Espresso (30 ml)'', 1)] = [''Espresso (30 ml) x1 (75 mg)'']"
    by (simp add: breakdown_parts_def catalog_eval)
  have p2: "breakdown_parts [(''Cola (330 ml)'', 2)] = [''Cola (330 ml) x2 (70 mg)'']"
    by (simp add: breakdown_parts_def catalog_eval)
  have s3: "str_int 3 = ''3''"
    by (simp add: str_int_def str_nat.simps digit_char_def)
  from unknown_item_zero_mg [OF h, of "[(''Espresso (30 ml)'', 1)]" 3 "[(''Cola (330 ml)'', 2)]"]
  have "fst (compute_caffeine_total [(''Espresso (30 ml)'', 1), (''Cola (330 ml)'', 2)]) = 145
    \<and> breakdown_parts
        [(''Espresso (30 ml)'', 1), (''Mate (500 ml)'', 3), (''Cola (330 ml)'', 2)]
       = [''Espresso (30 ml) x1 (75 mg)'', ''Mate (500 ml) x3 (0 mg)'',
          ''Cola (330 ml) x2 (70 mg)'']"
    by (simp add: v p1 p2 s3)
  with h v show ?thesis by simp
qed

subsection \<open>Rule engine\<close>

lemma append_if_append: "append_if c m xs = xs @ (if c then [m] else [])"
  by (simp add: append_if_def)

lemma filter_Cons_append: "filter P (x # xs) = (if P x then [x] else []) @ filter P xs"
  by simp




lemma filter_empty_list_ex: "(filter P xs = []) = (\<not> list_ex P xs)"
  by (induction xs) auto


lemma today_of_build:
  "today (build_recommendations p (row # rows))
     = today_advice (sensitivity_of p) (last (sort_key date (row # rows)))"
  by (simp add: build_recommendations_def Let_def)


text \<open>White space of every kind is stripped from the sensitivity of the profile.\<close>

lemma py_strip_examples:
  "py_strip ''  Forte '' = ''Forte''"
  "py_strip (''Forte'' @ [CHR 0xC2, CHR 0xA0]) = ''Forte''"
  "py_strip ([CHR 0xE2, CHR 0x80, CHR 0x83] @ ''Faible'' @ [CHR 0xE3, CHR 0x80, CHR 0x80, CHR 0x0A])
     = ''Faible''"
  "py_strip ''Moyenne'' = ''Moyenne''"
  by (simp_all add: py_strip_def py_isspace_def py_isspace2_def py_isspace3_def)

subsection \<open>Trend analysis\<close>

lemma length_tail: "length (tail k xs) = min k (length xs)"
  by (auto simp: tail_def)

lemma counter_patterns_Nil:
  "counter_patterns w [] =
     (if 3 \<le> high_caf_days w then [High_caffeine_days (high_caf_days w)] else [])
     @ (if 3 \<le> late_days w then [Late_intake_days (late_days w)] else [])
     @ (if 3 \<le> low_sleep_days w then [Low_sleep_days (low_sleep_days w)] else [])"
  by (simp add: counter_patterns_def Let_def append_if_def)


lemma trend_patterns_window:
  "3 \<le> length (tail 7 df) \<Longrightarrow>
   trend_patterns df =
     append_if (bin_comparison (groupby_caf_bin (tail 7 df)) (counter_patterns (tail 7 df) []) = [])
       No_reliable_trend
       (bin_comparison (groupby_caf_bin (tail 7 df)) (counter_patterns (tail 7 df) []))"
  by (simp add: trend_patterns_def Let_def)


lemma trend_patterns_short:
  "length (tail 7 df) < 3 \<Longrightarrow> trend_patterns df = [No_reliable_trend]"
  "length (tail 7 df) < 3 \<Longrightarrow> trend_patterns_lamiaa df = [No_reliable_trend]"
  by (simp_all add: trend_patterns_def trend_patterns_lamiaa_def Let_def append_if_def)

lemma patterns_of_build:
  "logs \<noteq> [] \<Longrightarrow>
   patterns (build_recommendations p logs) = trend_patterns (sort_key date logs)"
  "logs \<noteq> [] \<Longrightarrow>
   patterns (build_recommendations_lamiaa p logs) = trend_patterns_lamiaa (sort_key date logs)"
  by (simp_all add: build_recommendations_def build_recommendations_lamiaa_def Let_def)



lemma bin_sizes:
  "length (filter (\<lambda>r. f r = Some Bin_Faible) rows)
     + length (filter (\<lambda>r. f r = Some Bin_Moyen) rows)
     + length (filter (\<lambda>r. f r = Some Bin_Eleve) rows)
   = length (filter (\<lambda>r. f r \<noteq> None) rows)"
proof (induction rows)
  case Nil
  show ?case by simp
next
  case (Cons a rows)
  show ?case
  proof (cases "f a")
    case None
    with Cons show ?thesis by simp
  next
    case (Some b)
    with Cons show ?thesis by (cases b) simp_all
  qed
qed

text \<open>The sizes of the groups add up to the number of rows that have a bin.\<close>

lemma groupby_sizes:
  "sum_list (map g_n (groupby_caf_bin rows))
     = length (filter (\<lambda>r. cut (caffeine_mg_total r) \<noteq> None) rows)"
proof -
  have "sum_list (map g_n (groupby_caf_bin rows))
      = length (filter (\<lambda>r. cut (caffeine_mg_total r) = Some Bin_Faible) rows)
        + length (filter (\<lambda>r. cut (caffeine_mg_total r) = Some Bin_Moyen) rows)
        + length (filter (\<lambda>r. cut (caffeine_mg_total r) = Some Bin_Eleve) rows)"
    by (simp add: groupby_caf_bin_def Let_def)
  then show ?thesis
    by (simp only: bin_sizes)
qed


text \<open>
  Claim C6, as the code has it. For every non-empty history whose trailing window has
  fewer than 3 records, the patterns are exactly the one text that says there is not
  enough data, with no counter text and no comparison of bins; so it is with exactly
  2 records. (An empty history is answered before the trend analysis, with no pattern
  at all.)
\<close>

theorem insufficient_data_single_message:
  assumes "logs \<noteq> []" and "length (tail 7 (sort_key date logs)) < 3"
  shows "patterns (build_recommendations p logs) = [No_reliable_trend]
       \<and> patterns (build_recommendations_lamiaa p logs) = [No_reliable_trend]"
  using assms by (simp add: patterns_of_build trend_patterns_short)

theorem insufficient_data_single_message_witness:
  "[sample_row 1 250 18 6 3, sample_row 2 250 18 6 3] \<noteq> []
   \<and> length (tail 7 (sort_key date [sample_row 1 250 18 6 3, sample_row 2 250 18 6 3])) = 2
   \<and> patterns (build_recommendations None [sample_row 1 250 18 6 3, sample_row 2 250 18 6 3])
       = [No_reliable_trend]
   \<and> patterns (build_recommendations_lamiaa None
        [sample_row 1 250 18 6 3, sample_row 2 250 18 6 3])
       = [No_reliable_trend]"
proof -
  let ?logs = "[sample_row 1 250 18 6 3, sample_row 2 250 18 6 3]"
  have n: "?logs \<noteq> []" by simp
  have l: "length (tail 7 (sort_key date ?logs)) = 2"
    by (simp add: length_tail)
  then have l3: "length (tail 7 (sort_key date ?logs)) < 3"
    by simp
  from insufficient_data_single_message [OF n l3, of None] n l show ?thesis
    by blast
qed

text \<open>The empty history: fewer than 3 records in the window, and no pattern at all.\<close>

theorem empty_history_counterexample:
  "length (tail 7 (sort_key date ([] :: log_row list))) < 3
   \<and> patterns (build_recommendations None []) = []
   \<and> patterns (build_recommendations None []) \<noteq> [No_reliable_trend]
   \<and> patterns (build_recommendations_lamiaa None []) = []"
  by (simp add: build_recommendations_def build_recommendations_lamiaa_def tail_def)



subsection \<open>Comparison of bins\<close>

lemma sort_key_Nil_iff: "(sort_key f xs = []) = (xs = [])"
  by (metis length_0_conv length_sort)

lemma no_comparison_in_counters:
  "Bin_comparison b q b' q' \<notin> set (counter_patterns w [])"
  by (simp add: counter_patterns_Nil)

text \<open>
  When Cafe1.py reports a comparison: the window has five or more rows with a bin, and
  one bin or more has a mean of the sleep quality.
\<close>

lemma bin_comparison_reported_iff:
  "(\<exists>b q b' q'. Bin_comparison b q b' q' \<in> set (trend_patterns df))
     = (5 \<le> length (filter (\<lambda>r. cut (caffeine_mg_total r) \<noteq> None) (tail 7 df))
        \<and> 1 \<le> length (dropna_sleep_q (groupby_caf_bin (tail 7 df))))"
proof (cases "3 \<le> length (tail 7 df)")
  case False
  then have tps: "trend_patterns df = [No_reliable_trend]"
    by (simp add: trend_patterns_short)
  have "length (filter (\<lambda>r. cut (caffeine_mg_total r) \<noteq> None) (tail 7 df))
      \<le> length (tail 7 df)"
    by (rule length_filter_le)
  with False
  have n5: "\<not> 5 \<le> length (filter (\<lambda>r. cut (caffeine_mg_total r) \<noteq> None) (tail 7 df))"
    by linarith
  from n5 tps show ?thesis
    by simp
next
  case True
  let ?w = "tail 7 df"
  let ?g = "groupby_caf_bin ?w"
  let ?c = "counter_patterns ?w []"
  let ?v = "dropna_sleep_q ?g"
  have tp: "(\<exists>b q b' q'. Bin_comparison b q b' q' \<in> set (trend_patterns df))
      = (\<exists>b q b' q'. Bin_comparison b q b' q' \<in> set (bin_comparison ?g ?c))"
    by (auto simp: trend_patterns_window [OF True] append_if_def)
  have g: "5 \<le> sum_list (map g_n ?g) \<Longrightarrow> ?g \<noteq> []"
    by auto
  show ?thesis
  proof (cases "5 \<le> sum_list (map g_n ?g) \<and> ?v \<noteq> []")
    case yes: True
    then obtain best bs where b: "sort_descending ?v = best # bs"
      by (metis sort_descending_def sort_key_Nil_iff list.exhaust)
    from yes obtain worst ws where w: "sort_ascending ?v = worst # ws"
      by (metis sort_ascending_def sort_key_Nil_iff list.exhaust)
    have "bin_comparison ?g ?c
        = ?c @ [Bin_comparison (fst best) (snd best) (fst worst) (snd worst)]"
      using yes g by (simp add: bin_comparison_def b w)
    then have "\<exists>b q b' q'. Bin_comparison b q b' q' \<in> set (bin_comparison ?g ?c)"
      by auto
    with yes show ?thesis
      by (simp only: tp groupby_sizes [symmetric]) (simp add: Suc_le_eq)
  next
    case no: False
    have "bin_comparison ?g ?c = ?c"
    proof (cases "5 \<le> sum_list (map g_n ?g)")
      case True
      with no have "?v = []" by simp
      then show ?thesis
        by (simp add: bin_comparison_def sort_descending_def)
    next
      case False
      then show ?thesis by (simp add: bin_comparison_def)
    qed
    then have "\<not> (\<exists>b q b' q'. Bin_comparison b q b' q' \<in> set (bin_comparison ?g ?c))"
      by (simp add: no_comparison_in_counters)
    with no show ?thesis
      by (simp only: tp groupby_sizes [symmetric]) (auto simp: Suc_le_eq)
  qed
qed

text \<open>
  Claim C5 at five days in one bin. Five records of 50 mg with sleep quality 3 fill
  the bin \<open>Faible\<close> alone: the sizes add up to 5 and a single bin has a mean. Cafe1.py
  reports a comparison of that bin with itself, where the claim (and the guard of
  \<^verbatim>\<open>weekly_insights\<close> in cafe.py, which reports none) asks for two bins with a mean.
\<close>

theorem comparison_with_single_bin:
  "patterns (build_recommendations None
      [sample_row 1 50 10 8 3, sample_row 2 50 10 8 3, sample_row 3 50 10 8 3,
       sample_row 4 50 10 8 3, sample_row 5 50 10 8 3])
     = [Bin_comparison Bin_Faible 3 Bin_Faible 3]
   \<and> sum_list (map g_n (groupby_caf_bin (tail 7 (sort_key date
      [sample_row 1 50 10 8 3, sample_row 2 50 10 8 3, sample_row 3 50 10 8 3,
       sample_row 4 50 10 8 3, sample_row 5 50 10 8 3])))) = 5
   \<and> length (dropna_sleep_q (groupby_caf_bin (tail 7 (sort_key date
      [sample_row 1 50 10 8 3, sample_row 2 50 10 8 3, sample_row 3 50 10 8 3,
       sample_row 4 50 10 8 3, sample_row 5 50 10 8 3])))) = 1
   \<and> weekly_insights
      [sample_row 1 50 10 8 3, sample_row 2 50 10 8 3, sample_row 3 50 10 8 3,
       sample_row 4 50 10 8 3, sample_row 5 50 10 8 3]
     = [Correlation_sleep_quality, Correlation_sleep_hours, Correlation_anxiety]"
proof -
  let ?logs = "[sample_row 1 50 10 8 3, sample_row 2 50 10 8 3, sample_row 3 50 10 8 3,
       sample_row 4 50 10 8 3, sample_row 5 50 10 8 3]"
  have d: "date (sample_row i a b c e) = i" for i a b c e
    by (simp add: sample_row_def)
  have srt: "sort_key date ?logs = ?logs"
    by (simp add: d)
  have w: "tail 7 (sort_key date ?logs) = ?logs"
    by (simp only: srt) (simp add: tail_def)
  have len: "3 \<le> length (tail 7 (sort_key date ?logs))"
    by (simp only: w) simp
  have ct: "cut (caffeine_mg_total (sample_row i 50 b c e)) = Some Bin_Faible" for i b c e
    by (simp add: sample_row_def cut_def)
  have q: "sleep_quality_1_5 (sample_row i a b c 3) = Some 3" for i a b c
    by (simp add: sample_row_def)
  have sh: "sleep_hours (sample_row i a b 8 e) = Some 8" for i a b e
    by (simp add: sample_row_def)
  have ax: "anxiety_1_10 (sample_row i a b c e) = Some 4" for i a b c e
    by (simp add: sample_row_def)
  have g: "groupby_caf_bin ?logs
      = [\<lparr>g_caf_bin = Bin_Faible, g_sleep_q = Some 3, g_sleep_h = Some 8,
           g_anxiety = Some 4, g_n = 5\<rparr>]"
    by (simp add: groupby_caf_bin_def ct q sh ax mean_col_def List.map_filter_def)
  have hc: "high_caf_days ?logs = 0"
    by (simp add: high_caf_days_def count_where_def sample_row_def)
  have lc: "late_days ?logs = 0"
    by (simp add: late_days_def count_where_def sample_row_def)
  have sc: "low_sleep_days ?logs = 0"
    by (simp add: low_sleep_days_def count_where_def sample_row_def)
  have cp: "counter_patterns ?logs [] = []"
    by (simp add: counter_patterns_Nil hc lc sc)
  have bc: "bin_comparison
      [\<lparr>g_caf_bin = Bin_Faible, g_sleep_q = Some 3, g_sleep_h = Some 8,
           g_anxiety = Some 4, g_n = 5\<rparr>] []
      = [Bin_comparison Bin_Faible 3 Bin_Faible 3]"
    by (simp add: bin_comparison_def dropna_sleep_q_def List.map_filter_def
        sort_descending_def sort_ascending_def)
  have tp: "trend_patterns (sort_key date ?logs) = [Bin_comparison Bin_Faible 3 Bin_Faible 3]"
    by (simp only: trend_patterns_window [OF len] w cp g bc) (simp add: append_if_def)
  have ev: "patterns (build_recommendations None ?logs)
      = [Bin_comparison Bin_Faible 3 Bin_Faible 3]"
    by (simp only: patterns_of_build(1) [of ?logs None, OF list.distinct(2)] tp)
  have n: "sum_list (map g_n (groupby_caf_bin (tail 7 (sort_key date ?logs)))) = 5"
    by (simp only: w g) simp
  have v: "length (dropna_sleep_q (groupby_caf_bin (tail 7 (sort_key date ?logs)))) = 1"
    by (simp only: w g) (simp add: dropna_sleep_q_def List.map_filter_def)
  have wi: "weekly_insights ?logs
      = [Correlation_sleep_quality, Correlation_sleep_hours, Correlation_anxiety]"
    by (simp add: weekly_insights_def g dropna_sleep_quality_mean_def List.map_filter_def
        append_if_def)
  from ev n v wi show ?thesis by blast
qed

subsection \<open>Duplicate entries\<close>

text \<open>
  Claim C9. Whatever rows the log file holds, submitting the form for a participant
  and a date that one of the rows already has shows the duplicate error and leaves the
  rows of the file as they were: nothing is appended and nothing is overwritten.
\<close>

theorem duplicate_entry_rejected:
  assumes "list_ex (\<lambda>r. participant_id r = f_pid form \<and> date r = f_entry_date form) logs"
  shows "daily_entry_submit logs form now = (Duplicate_entry_error, logs)"
proof -
  from assms have "filter (\<lambda>r. participant_id r = f_pid form \<and> date r = f_entry_date form) logs
      \<noteq> []"
    by (simp add: filter_empty_list_ex)
  moreover from assms have "logs \<noteq> []"
    by auto
  ultimately show ?thesis
    by (simp add: daily_entry_submit_def Let_def)
qed

theorem duplicate_entry_rejected_witness:
  "list_ex (\<lambda>r. participant_id r = f_pid (initial_form ''P001'' 2)
        \<and> date r = f_entry_date (initial_form ''P001'' 2))
      [sample_row 1 250 18 6 3, sample_row 2 150 16 8 4]
   \<and> daily_entry_submit [sample_row 1 250 18 6 3, sample_row 2 150 16 8 4]
        (initial_form ''P001'' 2) ''2025-01-02T08:00:00''
       = (Duplicate_entry_error, [sample_row 1 250 18 6 3, sample_row 2 150 16 8 4])
   \<and> fst (daily_entry_submit [sample_row 1 250 18 6 3, sample_row 2 150 16 8 4]
        (initial_form ''P001'' 3) ''2025-01-03T08:00:00'')
       = Saved ''P001'' 3 0 8"
proof -
  have h: "list_ex (\<lambda>r. participant_id r = f_pid (initial_form ''P001'' 2)
        \<and> date r = f_entry_date (initial_form ''P001'' 2))
      [sample_row 1 250 18 6 3, sample_row 2 150 16 8 4]"
    by (simp add: initial_form_def sample_row_def)
  have t: "fst (compute_caffeine_total (f_drink_qty (initial_form ''P001'' 3))) = 0"
    by (simp add: initial_form_def compute_caffeine_total_eq CAFFEINE_CATALOG_def)
  have s: "compute_sleep_hours_from_hours 23 7 = 8"
    by (simp add: compute_sleep_hours_from_hours_def py_round2_def)
  have ok: "fst (daily_entry_submit [sample_row 1 250 18 6 3, sample_row 2 150 16 8 4]
        (initial_form ''P001'' 3) ''2025-01-03T08:00:00'')
       = Saved ''P001'' 3 0 8"
    using t by (simp add: daily_entry_submit_def Let_def s sample_row_def initial_form_def)
  from duplicate_entry_rejected [OF h] h ok show ?thesis by blast
qed

subsection \<open>The rule engine of cafe.py\<close>

text \<open>
  The shorter engine has the same fallback behaviour, on every row for which it
  returns; on the record of the example it gives the dose text first.
\<close>

lemma append_if_fallback:
  "Z \<notin> set xs \<Longrightarrow>
   (Z \<in> set (append_if (xs = []) Z xs)) = (append_if (xs = []) Z xs = [Z])"
  by (cases xs) (auto simp: append_if_def)

lemma member_append_if: "(z \<in> set (append_if c m xs)) = (c \<and> z = m \<or> z \<in> set xs)"
  by (auto simp: append_if_def)

lemma float_or_0_eq:
  "float_or_0 x = (if x = Text_cell then Inl ValueError else Inr (cell_value x))"
  by (cases x) (simp_all add: float_or_0_def cell_value_def)

lemma int_or_0_eq:
  "int_or_0 x =
     (if x = Text_cell \<or> x = NaN_cell then Inl ValueError
      else Inr (case x of Float_cell v \<Rightarrow> py_int v | NaN_cell \<Rightarrow> 0 | Text_cell \<Rightarrow> 0))"
  by (cases x) (simp_all add: int_or_0_def)

lemma late_rule_append_if:
  "(case c of
      Float_cell h \<Rightarrow> append_if (P h \<and> Q) m xs
    | NaN_cell \<Rightarrow> xs
    | Text_cell \<Rightarrow> xs)
   = append_if (cell_holds P (cell_value c) \<and> Q) m xs"
  by (cases c) (simp_all add: append_if_def cell_holds_def cell_value_def)

text \<open>Before the fallback, the list holds the rules of cafe.py that fire, in its order.\<close>

lemma fired_recommendations_filter:
  assumes "c_palpitations r = Float_cell pv"
  shows "fired_recommendations (cell_value (c_caffeine_mg_total r)) (c_last_caffeine_hour r)
           (cell_value (c_sleep_hours r)) (cell_value (c_anxiety_1_10 r))
           (cell_value (c_stress_1_10 r)) (py_int pv)
         = filter (cafe_rule_holds r) cafe_rule_table"
proof -
  have p: "cell_holds (\<lambda>v. py_int v = 1) (cell_value (c_palpitations r)) = (py_int pv = 1)"
    by (simp add: assms cell_holds_def cell_value_def)
  show ?thesis
    unfolding fired_recommendations_def Let_def late_rule_append_if
    by (simp only: append_if_append cafe_rule_table_def filter_Cons_append
        cafe_rule_holds.simps p filter.simps(1) append_Nil append_Nil2 append_assoc)
qed

lemma no_fallback_among_fired:
  "Rec_nothing_major \<notin> set (filter (cafe_rule_holds r) cafe_rule_table)"
  by simp

text \<open>The whole function: it raises on the rows described, and otherwise filters its table.\<close>

lemma recommendations_for_row_filter:
  "recommendations_for_row r =
     (if cafe_raises r then Inl ValueError
      else Inr (if list_ex (cafe_rule_holds r) cafe_rule_table
                then filter (cafe_rule_holds r) cafe_rule_table
                else [Rec_nothing_major]))"
proof (cases "cafe_raises r")
  case True
  then show ?thesis
    by (auto simp: recommendations_for_row_def cafe_raises_def float_or_0_eq int_or_0_eq)
next
  case False
  then obtain pv where pv: "c_palpitations r = Float_cell pv"
    by (cases "c_palpitations r") (simp_all add: cafe_raises_def)
  from False have nt: "c_caffeine_mg_total r \<noteq> Text_cell" "c_sleep_hours r \<noteq> Text_cell"
    "c_anxiety_1_10 r \<noteq> Text_cell" "c_stress_1_10 r \<noteq> Text_cell"
    by (simp_all add: cafe_raises_def)
  have "recommendations_for_row r =
      Inr (append_if (filter (cafe_rule_holds r) cafe_rule_table = []) Rec_nothing_major
            (filter (cafe_rule_holds r) cafe_rule_table))"
    by (simp add: recommendations_for_row_def float_or_0_eq int_or_0_eq nt pv Let_def
        fired_recommendations_filter [OF pv] del: filter.simps)
  then show ?thesis
    using False by (simp add: append_if_def filter_empty_list_ex del: filter.simps)
qed

lemma recommendations_for_row_fallback:
  assumes "recommendations_for_row row = Inr recs"
  shows "(Rec_nothing_major \<in> set recs) = (recs = [Rec_nothing_major])"
proof -
  let ?xs = "filter (cafe_rule_holds row) cafe_rule_table"
  from assms have r: "recs = append_if (?xs = []) Rec_nothing_major ?xs"
    by (simp add: recommendations_for_row_filter append_if_def filter_empty_list_ex
        del: filter.simps split: if_splits)
  show ?thesis
    unfolding r by (rule append_if_fallback) (rule no_fallback_among_fired)
qed

lemma recommendations_for_row_example:
  "recommendations_for_row
     \<lparr>c_caffeine_mg_total = Float_cell 250, c_last_caffeine_hour = Float_cell 18,
      c_sleep_hours = Float_cell 6, c_anxiety_1_10 = Float_cell a, c_stress_1_10 = Float_cell s,
      c_palpitations = Float_cell 0\<rparr>
     = Inr ([Rec_high_dose, Rec_late_intake, Rec_sleep_under_7h]
            @ (if 7 \<le> a then [Rec_anxiety] else [])
            @ (if 7 \<le> s then [Rec_stress] else []))"
  by (simp add: recommendations_for_row_def fired_recommendations_def float_or_0_def
      int_or_0_def Let_def append_if_def cell_holds_def py_int_def)

text \<open>A text cell ends the call with the exception; an empty hour only skips its rule.\<close>

lemma recommendations_for_row_raises:
  "recommendations_for_row (r\<lparr>c_sleep_hours := Text_cell\<rparr>) = Inl ValueError"
  "recommendations_for_row (r\<lparr>c_palpitations := NaN_cell\<rparr>) = Inl ValueError"
  by (simp_all add: recommendations_for_row_filter cafe_raises_def)

subsection \<open>The order of the rules in the two engines\<close>



end
